theory Spec2Isabelle
  imports Complex_Main
begin

section \<open>JavaScript values and outcomes\<close>

text \<open>
  The script \<open>app/static/script.js\<close> is browser code. Its functions are embedded as HOL
  functions over an explicit description of the page: every exception the script can raise
  on the way is a value, and every effect on the page is an entry of a list of effects.
\<close>

datatype error = TypeError | NetworkError | SyntaxError | RangeError

text \<open>How a call ends: it returns (an \<open>async\<close> function: its promise is fulfilled), or it
  throws (its promise is rejected).\<close>

datatype 'a outcome = Returned 'a | Threw error

text \<open>
  A JavaScript number: \<open>NaN\<close>, a finite number, \<open>Infinity\<close> or \<open>-Infinity\<close>. The finite
  doubles are idealised as reals: the rounding of an operation on finite numbers, its
  overflow and the sign of zero are not represented; what the operations do with \<open>NaN\<close>
  and the infinities is.
\<close>

datatype jsnum = NaN | Fin real | PInf | NInf

fun js_neg :: "jsnum \<Rightarrow> jsnum" where
  "js_neg NaN = NaN"
| "js_neg (Fin a) = Fin (- a)"
| "js_neg PInf = NInf"
| "js_neg NInf = PInf"

text \<open>\<open>a + b\<close>: the sum of opposite infinities is \<open>NaN\<close>.\<close>

fun js_add :: "jsnum \<Rightarrow> jsnum \<Rightarrow> jsnum" where
  "js_add NaN b = NaN"
| "js_add (Fin a) NaN = NaN"
| "js_add (Fin a) (Fin b) = Fin (a + b)"
| "js_add (Fin a) PInf = PInf"
| "js_add (Fin a) NInf = NInf"
| "js_add PInf NaN = NaN"
| "js_add PInf (Fin b) = PInf"
| "js_add PInf PInf = PInf"
| "js_add PInf NInf = NaN"
| "js_add NInf NaN = NaN"
| "js_add NInf (Fin b) = NInf"
| "js_add NInf PInf = NaN"
| "js_add NInf NInf = NInf"

text \<open>\<open>a - b\<close>; so \<open>Infinity - Infinity\<close> is \<open>NaN\<close>.\<close>

definition js_sub :: "jsnum \<Rightarrow> jsnum \<Rightarrow> jsnum" where
  "js_sub a b = js_add a (js_neg b)"

text \<open>\<open>a * b\<close>: an infinity times zero is \<open>NaN\<close>.\<close>

fun js_mul :: "jsnum \<Rightarrow> jsnum \<Rightarrow> jsnum" where
  "js_mul NaN b = NaN"
| "js_mul (Fin a) NaN = NaN"
| "js_mul (Fin a) (Fin b) = Fin (a * b)"
| "js_mul (Fin a) PInf = (if a = 0 then NaN else if 0 < a then PInf else NInf)"
| "js_mul (Fin a) NInf = (if a = 0 then NaN else if 0 < a then NInf else PInf)"
| "js_mul PInf NaN = NaN"
| "js_mul PInf (Fin b) = (if b = 0 then NaN else if 0 < b then PInf else NInf)"
| "js_mul PInf PInf = PInf"
| "js_mul PInf NInf = NInf"
| "js_mul NInf NaN = NaN"
| "js_mul NInf (Fin b) = (if b = 0 then NaN else if 0 < b then NInf else PInf)"
| "js_mul NInf PInf = NInf"
| "js_mul NInf NInf = PInf"

text \<open>\<open>a / b\<close>: a finite number over an infinity is zero, an infinity over an infinity is
  \<open>NaN\<close>; a zero divisor is taken as the positive zero.\<close>

fun js_div :: "jsnum \<Rightarrow> jsnum \<Rightarrow> jsnum" where
  "js_div NaN b = NaN"
| "js_div (Fin a) NaN = NaN"
| "js_div (Fin a) (Fin b) =
     (if b = 0 then (if a = 0 then NaN else if 0 < a then PInf else NInf) else Fin (a / b))"
| "js_div (Fin a) PInf = Fin 0"
| "js_div (Fin a) NInf = Fin 0"
| "js_div PInf NaN = NaN"
| "js_div PInf (Fin b) = (if 0 \<le> b then PInf else NInf)"
| "js_div PInf PInf = NaN"
| "js_div PInf NInf = NaN"
| "js_div NInf NaN = NaN"
| "js_div NInf (Fin b) = (if 0 \<le> b then NInf else PInf)"
| "js_div NInf PInf = NaN"
| "js_div NInf NInf = NaN"

text \<open>\<open>Math.max(a, b)\<close> and \<open>Math.min(a, b)\<close>: \<open>NaN\<close> when an argument is \<open>NaN\<close>.\<close>

fun js_max :: "jsnum \<Rightarrow> jsnum \<Rightarrow> jsnum" where
  "js_max NaN b = NaN"
| "js_max (Fin a) NaN = NaN"
| "js_max (Fin a) (Fin b) = Fin (max a b)"
| "js_max (Fin a) PInf = PInf"
| "js_max (Fin a) NInf = Fin a"
| "js_max PInf NaN = NaN"
| "js_max PInf (Fin b) = PInf"
| "js_max PInf PInf = PInf"
| "js_max PInf NInf = PInf"
| "js_max NInf b = b"

fun js_min :: "jsnum \<Rightarrow> jsnum \<Rightarrow> jsnum" where
  "js_min NaN b = NaN"
| "js_min (Fin a) NaN = NaN"
| "js_min (Fin a) (Fin b) = Fin (min a b)"
| "js_min (Fin a) PInf = Fin a"
| "js_min (Fin a) NInf = NInf"
| "js_min PInf b = b"
| "js_min NInf NaN = NaN"
| "js_min NInf (Fin b) = NInf"
| "js_min NInf PInf = NInf"
| "js_min NInf NInf = NInf"

text \<open>
  The values a field of a parsed JSON object can hold, and \<open>undefined\<close> for a field that is
  missing. An object or array is kept as what its conversion to a primitive gives: the
  string (\<open>[object Object]\<close> for a plain object, the joined elements for an array), or
  \<open>None\<close> when the conversion throws a \<open>TypeError\<close>, as it does for the parsed JSON
  \<open>{"toString": 1}\<close>, whose \<open>toString\<close> cannot be called.
\<close>

datatype jsval =
    JUndefined
  | JNull
  | JBool bool
  | JNumber jsnum
  | JString string
  | JObject "string option"

text \<open>
  \<open>Number(v)\<close>. The conversion of a string to a number is the language's own
  (\<open>StringToNumber\<close>); it is the parameter \<open>str2num\<close>.
\<close>

fun Number :: "(string \<Rightarrow> jsnum) \<Rightarrow> jsval \<Rightarrow> jsnum outcome" where
  "Number str2num JUndefined = Returned NaN"
| "Number str2num JNull = Returned (Fin 0)"
| "Number str2num (JBool b) = Returned (Fin (if b then 1 else 0))"
| "Number str2num (JNumber n) = Returned n"
| "Number str2num (JString s) = Returned (str2num s)"
| "Number str2num (JObject (Some s)) = Returned (str2num s)"
| "Number str2num (JObject None) = Threw TypeError"

text \<open>\<open>n || 0\<close> on a number: \<open>NaN\<close> and zero are falsy, the infinities are not.\<close>

fun or_zero :: "jsnum \<Rightarrow> jsnum" where
  "or_zero NaN = Fin 0"
| "or_zero (Fin r) = (if r = 0 then Fin 0 else Fin r)"
| "or_zero PInf = PInf"
| "or_zero NInf = NInf"

text \<open>\<open>Number(v) || 0\<close>.\<close>

definition coerce :: "(string \<Rightarrow> jsnum) \<Rightarrow> jsval \<Rightarrow> jsnum outcome" where
  "coerce str2num v =
     (case Number str2num v of
        Threw e \<Rightarrow> Threw e
      | Returned n \<Rightarrow> Returned (or_zero n))"

section \<open>The chart renderer\<close>

text \<open>A series point \<open>{t, value}\<close>, with \<open>JUndefined\<close> for a field it does not have (an
  element that is a number, a string or a boolean has neither). An element of the series
  that is \<open>null\<close> or \<open>undefined\<close> is \<open>None\<close>, and reading a field of it throws.\<close>

record point =
  pt_t :: jsval
  pt_value :: jsval

text \<open>The text of a label: \<open>`${t.toFixed(0)}s`\<close> or a literal.\<close>

datatype label = Seconds jsnum | Lit string

text \<open>The operations on the 2d context, in the order the script issues them. The
  coordinates of \<open>moveTo\<close> and \<open>lineTo\<close> are whatever numbers the script computes.\<close>

datatype canvas_op =
    ClearRect real real real real
  | StrokeStyle string
  | LineWidth real
  | BeginPath
  | MoveTo jsnum jsnum
  | LineTo jsnum jsnum
  | Stroke
  | FillStyle string
  | Font string
  | TextAlign string
  | FillText label real real

definition padL :: real where "padL = 40"
definition padR :: real where "padR = 10"
definition padT :: real where "padT = 10"
definition padB :: real where "padB = 30"

text \<open>\<open>series.map(p => Number(p.t) || 0)\<close>: throws at the first element that has no fields
  and at the first field whose conversion throws.\<close>

fun map_field :: "(point \<Rightarrow> jsnum outcome) \<Rightarrow> point option list \<Rightarrow> jsnum list outcome" where
  "map_field f [] = Returned []"
| "map_field f (None # ps) = Threw TypeError"
| "map_field f (Some p # ps) =
     (case f p of
        Threw e \<Rightarrow> Threw e
      | Returned r \<Rightarrow>
          (case map_field f ps of
             Threw e \<Rightarrow> Threw e
           | Returned rs \<Rightarrow> Returned (r # rs)))"

text \<open>
  The number of arguments the engine accepts in one call. The limit is the engine's own: it
  takes at least the two arguments of \<open>Math.min(a, b)\<close>, and \<open>extra\<close> is how many further
  arguments this engine takes.
\<close>

definition arg_limit :: "nat \<Rightarrow> nat" where
  "arg_limit extra = 2 + extra"

text \<open>\<open>Math.min\<close> and \<open>Math.max\<close> of the numbers of a list: \<open>Infinity\<close> and \<open>-Infinity\<close> for no
  number at all.\<close>

definition lowest :: "jsnum list \<Rightarrow> jsnum" where
  "lowest xs = foldr js_min xs PInf"

definition highest :: "jsnum list \<Rightarrow> jsnum" where
  "highest xs = foldr js_max xs NInf"

text \<open>\<open>Math.min(...xs)\<close> and \<open>Math.max(...xs)\<close>: the spread passes every element as an
  argument, and the engine throws a \<open>RangeError\<close> when they are more than it accepts.\<close>

definition math_min :: "nat \<Rightarrow> jsnum list \<Rightarrow> jsnum outcome" where
  "math_min extra xs = (if length xs > arg_limit extra then Threw RangeError else Returned (lowest xs))"

definition math_max :: "nat \<Rightarrow> jsnum list \<Rightarrow> jsnum outcome" where
  "math_max extra xs = (if length xs > arg_limit extra then Threw RangeError else Returned (highest xs))"

text \<open>The scale helpers \<open>x\<close> and \<open>y\<close> of \<open>renderChart\<close>.\<close>

definition x_denominator :: "jsnum \<Rightarrow> jsnum \<Rightarrow> jsnum" where
  "x_denominator tMin tMax = js_max (Fin (1 / 10 ^ 9)) (js_sub tMax tMin)"

definition scale_x :: "jsnum \<Rightarrow> jsnum \<Rightarrow> real \<Rightarrow> jsnum \<Rightarrow> jsnum" where
  "scale_x tMin tMax plotW t =
     js_add (Fin padL) (js_mul (js_div (js_sub t tMin) (x_denominator tMin tMax)) (Fin plotW))"

definition scale_y :: "real \<Rightarrow> jsnum \<Rightarrow> jsnum" where
  "scale_y plotH v =
     (let vMin = Fin 0; vMax = Fin 1
      in js_add (Fin padT)
           (js_mul (js_sub (Fin 1) (js_div (js_sub v vMin) (js_max (Fin (1 / 10 ^ 9)) (js_sub vMax vMin))))
              (Fin plotH)))"

text \<open>The loop over \<open>i\<close>: \<open>moveTo\<close> for the first point, \<open>lineTo\<close> for the others.\<close>

fun line_loop :: "(jsnum \<Rightarrow> jsnum) \<Rightarrow> (jsnum \<Rightarrow> jsnum) \<Rightarrow> nat \<Rightarrow> jsnum list \<Rightarrow> jsnum list
    \<Rightarrow> canvas_op list" where
  "line_loop x y i (t # ts) (v # vs) =
     (let px = x t; py = y v
      in (if i = 0 then MoveTo px py else LineTo px py) # line_loop x y (Suc i) ts vs)"
| "line_loop x y i _ _ = []"

text \<open>The part of \<open>renderChart\<close> under its comments \<open>Axes\<close> and \<open>Ticks/labels\<close>: the two axis
  lines and the four labels.\<close>

definition axes_ops :: "real \<Rightarrow> real \<Rightarrow> jsnum \<Rightarrow> jsnum \<Rightarrow> canvas_op list" where
  "axes_ops w h tMin tMax =
     [StrokeStyle ''#888'', LineWidth 1,
      BeginPath, MoveTo (Fin padL) (Fin (h - padB)), LineTo (Fin (w - padR)) (Fin (h - padB)), Stroke,
      BeginPath, MoveTo (Fin padL) (Fin padT), LineTo (Fin padL) (Fin (h - padB)), Stroke,
      FillStyle ''#555'', Font ''12px sans-serif'', TextAlign ''center'',
      FillText (Seconds tMin) padL (h - 10),
      FillText (Seconds tMax) (w - padR) (h - 10),
      TextAlign ''right'',
      FillText (Lit ''1.0'') (padL - 6) (padT + 4),
      FillText (Lit ''0.0'') (padL - 6) (h - padB)]"

text \<open>
  \<open>renderChart(series)\<close>, on an engine that takes \<open>arg_limit extra\<close> arguments in a call. The
  canvas \<open>engagement-chart\<close> is \<open>None\<close> when the page has no such element, else its width
  and height; the series is \<open>None\<close> for \<open>null\<close> or \<open>undefined\<close>. The result is the list
  of operations issued on the context and how the call ended. Everything that can throw
  comes after \<open>clearRect\<close> and before the first axis is drawn.
\<close>

definition renderChart :: "(string \<Rightarrow> jsnum) \<Rightarrow> nat \<Rightarrow> (nat \<times> nat) option
    \<Rightarrow> point option list option \<Rightarrow> canvas_op list \<times> unit outcome" where
  "renderChart str2num extra canvas series =
     (case canvas of
        None \<Rightarrow> ([], Returned ())
      | Some (cw, ch) \<Rightarrow>
          (let w = real cw; h = real ch;
               clear = [ClearRect 0 0 w h]
           in case series of
                None \<Rightarrow> (clear, Returned ())
              | Some ps \<Rightarrow>
                  if length ps = 0 then (clear, Returned ())
                  else
                    (case map_field (\<lambda>p. coerce str2num (pt_t p)) ps of
                       Threw e \<Rightarrow> (clear, Threw e)
                     | Returned tms \<Rightarrow>
                    (case map_field (\<lambda>p. coerce str2num (pt_value p)) ps of
                       Threw e \<Rightarrow> (clear, Threw e)
                     | Returned vals \<Rightarrow>
                    (case math_min extra tms of
                       Threw e \<Rightarrow> (clear, Threw e)
                     | Returned tMin \<Rightarrow>
                    (case math_max extra tms of
                       Threw e \<Rightarrow> (clear, Threw e)
                     | Returned tMax \<Rightarrow>
                         (let plotW = w - padL - padR;
                              plotH = h - padT - padB
                          in (clear @ axes_ops w h tMin tMax @
                              [StrokeStyle ''#2a7'', LineWidth 2, BeginPath] @
                              line_loop (scale_x tMin tMax plotW) (scale_y plotH) 0 tms vals @
                              [Stroke],
                              Returned ()))))))))"

text \<open>
  What the claims on the renderer speak of, stated from their words. The number a field
  stands for: the one \<open>Number\<close> gives, and 0 where that is not a number.
\<close>

definition number_or_zero :: "(string \<Rightarrow> jsnum) \<Rightarrow> jsval \<Rightarrow> jsnum" where
  "number_or_zero str2num v =
     (case Number str2num v of
        Returned NaN \<Rightarrow> Fin 0
      | Returned (Fin r) \<Rightarrow> Fin r
      | Returned PInf \<Rightarrow> PInf
      | Returned NInf \<Rightarrow> NInf
      | Threw e \<Rightarrow> Fin 0)"

text \<open>A field whose conversion to a number does not throw.\<close>

definition converts :: "(string \<Rightarrow> jsnum) \<Rightarrow> jsval \<Rightarrow> bool" where
  "converts str2num v = (case Number str2num v of Returned n \<Rightarrow> True | Threw e \<Rightarrow> False)"

text \<open>The path through a list of pixel positions: a move to the first, a line to each of
  the others.\<close>

fun polyline :: "(jsnum \<times> jsnum) list \<Rightarrow> canvas_op list" where
  "polyline [] = []"
| "polyline ((px, py) # rest) = MoveTo px py # map (\<lambda>(qx, qy). LineTo qx qy) rest"

text \<open>
  The reading of a point in which a field that \<open>Number\<close> does not turn into a number is
  replaced by the number 0.
\<close>

definition zero_if_not_number :: "(string \<Rightarrow> jsnum) \<Rightarrow> jsval \<Rightarrow> jsval" where
  "zero_if_not_number str2num v =
     (if Number str2num v = Returned NaN then JNumber (Fin 0) else v)"

definition zeroed_point :: "(string \<Rightarrow> jsnum) \<Rightarrow> point \<Rightarrow> point" where
  "zeroed_point str2num p =
     \<lparr>pt_t = zero_if_not_number str2num (pt_t p),
      pt_value = zero_if_not_number str2num (pt_value p)\<rparr>"

section \<open>The page, the storage and the server\<close>

text \<open>The endpoints the script calls: \<open>/meta/boot\<close>, \<open>/media/upload\<close>, \<open>/media/files\<close>,
  \<open>/media/files/{id}\<close>, \<open>/media/files/{id}/analyze\<close> and \<open>/auth/me\<close>.\<close>

datatype endpoint =
    MetaBoot
  | MediaUpload
  | MediaFiles
  | MediaFile nat
  | MediaFileAnalyze nat
  | AuthMe

text \<open>A call of \<open>fetch\<close>: the method, the endpoint, the \<open>Authorization\<close> header if one is
  set, and the names of the files in the form data if there is a body.\<close>

datatype request = Request string endpoint "string option" "string list option"

record file_record =
  file_id :: nat
  filename :: string
  uploaded_at :: string

text \<open>
  Modelled from the spec: the JSON bodies of the backend, which is not part of this
  repository (section 6 of the specification gives their fields). \<open>NotJson\<close> is a body
  on which \<open>res.json()\<close> rejects; \<open>PlainObject\<close> is a JSON object with none of the fields
  the script reads.
\<close>

datatype body =
    NotJson
  | BootBody string
  | UploadBody "string list"
  | FilesBody "file_record list"
  | UserBody string
  | DetailBody string
  | PlainObject

text \<open>What \<open>await fetch(...)\<close> gives: the promise rejects (the network failed), or it yields
  a response with its flag \<open>res.ok\<close> and its body.\<close>

datatype reply = NetFail | Reply bool body

text \<open>What the script assigns to \<open>innerHTML\<close>: the rows of the file list, the paragraph
  \<open>Error loading files\<close>, the paragraph \<open>Uploaded: \<close> with the file names, and the paragraph
  \<open>Error: \<close> with a message.\<close>

datatype html =
    FileRows "file_record list"
  | ErrorLoadingFiles
  | Uploaded "string list"
  | UploadError string

text \<open>The effects of the script on the browser, in the order they happen. \<open>Called f\<close>
  records that the function \<open>f\<close> of the script was entered.\<close>

datatype event =
    Fetch request
  | Navigate string
  | Alert string
  | ClassRemove string string
  | ClassAdd string string
  | SetInnerHTML string html
  | SetTextContent string string
  | Called string

text \<open>
  The browser as the script sees it: \<open>localStorage\<close>, \<open>window.location.pathname\<close>, the ids
  (and the selector \<open>.tabs\<close>) of the elements the document has, the names of the files
  selected in \<open>fileInput\<close>, the replies the server will give to the calls of \<open>fetch\<close> to
  come (\<open>replies w 0\<close> answers the next one), and the effects so far.
\<close>

record world =
  localStorage :: "string \<rightharpoonup> string"
  pathname :: string
  elements :: "string list"
  selected_files :: "string list"
  replies :: "nat \<Rightarrow> reply"
  trace :: "event list"

definition getItem :: "world \<Rightarrow> string \<Rightarrow> string option" where
  "getItem w k = localStorage w k"

definition setItem :: "string \<Rightarrow> string \<Rightarrow> world \<Rightarrow> world" where
  "setItem k v w = w\<lparr>localStorage := (localStorage w)(k \<mapsto> v)\<rparr>"

definition removeItem :: "string \<Rightarrow> world \<Rightarrow> world" where
  "removeItem k w = w\<lparr>localStorage := (localStorage w)(k := None)\<rparr>"

text \<open>The truth value of what \<open>getItem\<close> returns: \<open>null\<close> and the empty string are falsy.\<close>

fun truthy :: "string option \<Rightarrow> bool" where
  "truthy None = False"
| "truthy (Some s) = (s \<noteq> [])"

text \<open>The header \<open>`Bearer ${token}`\<close>; a token that is \<open>null\<close> is printed as \<open>null\<close>.\<close>

fun bearer :: "string option \<Rightarrow> string" where
  "bearer None = ''Bearer null''"
| "bearer (Some t) = ''Bearer '' @ t"

definition emit :: "event \<Rightarrow> world \<Rightarrow> world" where
  "emit e w = w\<lparr>trace := trace w @ [e]\<rparr>"

definition has_element :: "world \<Rightarrow> string \<Rightarrow> bool" where
  "has_element w i = (i \<in> set (elements w))"

text \<open>\<open>await fetch(...)\<close>: the call is recorded and the next reply of the server is taken.\<close>

definition fetch :: "request \<Rightarrow> world \<Rightarrow> reply \<times> world" where
  "fetch rq w =
     (replies w 0, w\<lparr>replies := (\<lambda>n. replies w (Suc n)), trace := trace w @ [Fetch rq]\<rparr>)"

section \<open>File operations\<close>

text \<open>
  \<open>loadUserFiles()\<close>. A promise that rejects is a \<open>Threw\<close>: \<open>res.json()\<close> on a body that
  is not JSON, \<open>data.files.map\<close> on a body without \<open>files\<close>, \<open>filesEl.innerHTML\<close> on a page
  without the element \<open>user-files\<close>.
\<close>

definition loadUserFiles :: "world \<Rightarrow> unit outcome \<times> world" where
  "loadUserFiles w0 =
     (let w = emit (Called ''loadUserFiles'') w0;
          token = getItem w ''token'';
          (res, w1) = fetch (Request ''GET'' MediaFiles (Some (bearer token)) None) w
      in case res of
           NetFail \<Rightarrow> (Threw NetworkError, w1)
         | Reply ok data \<Rightarrow>
             if data = NotJson then (Threw SyntaxError, w1)
             else if \<not> has_element w1 ''user-files'' then (Threw TypeError, w1)
             else if ok then
               (case data of
                  FilesBody files \<Rightarrow> (Returned (), emit (SetInnerHTML ''user-files'' (FileRows files)) w1)
                | _ \<Rightarrow> (Threw TypeError, w1))
             else (Returned (), emit (SetInnerHTML ''user-files'' ErrorLoadingFiles) w1))"

text \<open>\<open>data.detail || 'Unknown'\<close>.\<close>

fun detail_or_unknown :: "body \<Rightarrow> string" where
  "detail_or_unknown (DetailBody d) = (if d = [] then ''Unknown'' else d)"
| "detail_or_unknown _ = ''Unknown''"

definition token_hint :: string where
  "token_hint = ''Set token in localStorage: localStorage.setItem('' @ [CHR 0x22] @ ''token''
     @ [CHR 0x22] @ '', '' @ [CHR 0x22] @ ''your_token'' @ [CHR 0x22] @ '')''"

text \<open>
  \<open>upload()\<close>. Its first statement reads \<open>document.getElementById('fileInput').files\<close>, which
  throws on a page without that element. The call \<open>loadUserFiles()\<close> is not awaited: what it
  does is sequenced here, and how it ends is dropped.
\<close>

definition upload :: "world \<Rightarrow> unit outcome \<times> world" where
  "upload w =
     (if \<not> has_element w ''fileInput'' then (Threw TypeError, w)
      else
        let files = selected_files w;
            token = getItem w ''token''
        in if \<not> truthy token then (Returned (), emit (Alert token_hint) w)
           else
             let (res, w1) = fetch (Request ''POST'' MediaUpload (Some (bearer token)) (Some files)) w
             in case res of
                  NetFail \<Rightarrow> (Threw NetworkError, w1)
                | Reply ok data \<Rightarrow>
                    if data = NotJson then (Threw SyntaxError, w1)
                    else if \<not> has_element w1 ''results'' then (Threw TypeError, w1)
                    else if ok then
                      (case data of
                         UploadBody names \<Rightarrow>
                           (let w2 = emit (SetInnerHTML ''results'' (Uploaded names)) w1;
                                (_, w3) = loadUserFiles w2
                            in (Returned (), w3))
                       | _ \<Rightarrow> (Threw TypeError, w1))
                    else
                      (Returned (),
                       emit (SetInnerHTML ''results'' (UploadError (detail_or_unknown data))) w1))"

text \<open>
  \<open>deleteFile(id)\<close>, in the variant of lines 468 to 479: no confirmation, and the list is
  refreshed whatever the response (the other variant in the source asks for confirmation
  and refreshes only after a response that is \<open>ok\<close>). The test
  \<open>typeof loadUserFiles === 'function'\<close> holds, since the script declares the function.
  The call \<open>loadUserFiles()\<close> is not awaited, so how it ends is dropped.
\<close>

definition deleteFile :: "nat \<Rightarrow> world \<Rightarrow> unit outcome \<times> world" where
  "deleteFile ident w =
     (let token = getItem w ''token''
      in if \<not> truthy token then (Returned (), w)
         else
           let (res, w1) = fetch (Request ''DELETE'' (MediaFile ident) (Some (bearer token)) None) w
           in case res of
                NetFail \<Rightarrow> (Returned (), w1)
              | Reply ok data \<Rightarrow>
                  (let (_, w2) = loadUserFiles w1 in (Returned (), w2)))"

text \<open>\<open>getCurrentUser()\<close>: \<open>None\<close> is \<open>null\<close>, else the parsed body.\<close>

definition getCurrentUser :: "world \<Rightarrow> body option outcome \<times> world" where
  "getCurrentUser w =
     (let token = getItem w ''token''
      in if \<not> truthy token then (Returned None, w)
         else
           let (res, w1) = fetch (Request ''GET'' AuthMe (Some (bearer token)) None) w
           in case res of
                NetFail \<Rightarrow> (Threw NetworkError, w1)
              | Reply ok data \<Rightarrow>
                  if \<not> ok then (Returned None, w1)
                  else if data = NotJson then (Threw SyntaxError, w1)
                  else (Returned (Some data), w1))"

section \<open>The session guard\<close>

definition startsWith :: "string \<Rightarrow> string \<Rightarrow> bool" where
  "startsWith s pre = (take (length pre) s = pre)"

definition endsWith :: "string \<Rightarrow> string \<Rightarrow> bool" where
  "endsWith s suf = (length suf \<le> length s \<and> drop (length s - length suf) s = suf)"

text \<open>The path the guard classifies: \<open>window.location.pathname || '/'\<close>, without its final
  slash when it is longer than one character.\<close>

definition current_path :: "world \<Rightarrow> string" where
  "current_path w =
     (let path = (if pathname w = [] then ''/'' else pathname w)
      in if length path > 1 \<and> endsWith path ''/'' then butlast path else path)"

definition onAuthPage :: "string \<Rightarrow> bool" where
  "onAuthPage path = (path = ''/'' \<or> path = ''/auth'' \<or> startsWith path ''/auth?'')"

definition onUploadPage :: "string \<Rightarrow> bool" where
  "onUploadPage path = (path = ''/upload'' \<or> startsWith path ''/upload?'')"

definition onProfilePage :: "string \<Rightarrow> bool" where
  "onProfilePage path = (path = ''/profile'' \<or> startsWith path ''/profile?'')"

definition onAlgorithmPage :: "string \<Rightarrow> bool" where
  "onAlgorithmPage path = (path = ''/algorithm'' \<or> startsWith path ''/algorithm?'')"

text \<open>The condition \<open>onUploadPage || onProfilePage || onAlgorithmPage\<close>.\<close>

definition onPrivatePage :: "string \<Rightarrow> bool" where
  "onPrivatePage path = (onUploadPage path \<or> onProfilePage path \<or> onAlgorithmPage path)"

text \<open>The block that shows the login form, which the guard has three times: it acts only
  when the page has the tabs and both forms.\<close>

definition show_forms :: "world \<Rightarrow> world" where
  "show_forms w =
     (if has_element w ''.tabs'' \<and> has_element w ''login-form'' \<and> has_element w ''register-form''
      then emit (ClassAdd ''register-form'' ''hidden'')
             (emit (ClassRemove ''login-form'' ''hidden'')
               (emit (ClassRemove ''.tabs'' ''hidden'') w))
      else w)"

text \<open>What the destructuring \<open>const { boot_id } = await bootRes.json()\<close> binds: \<open>None\<close> is
  \<open>undefined\<close>, for a body without the field.\<close>

fun boot_id_of :: "body \<Rightarrow> string option" where
  "boot_id_of (BootBody b) = Some b"
| "boot_id_of _ = None"

text \<open>The string that \<open>setItem\<close> stores for it.\<close>

fun stored_form :: "string option \<Rightarrow> string" where
  "stored_form None = ''undefined''"
| "stored_form (Some b) = b"

text \<open>
  Step 1 of \<open>checkAuth\<close>: the probe of \<open>/meta/boot\<close> inside its \<open>try\<close>. A network failure and a
  body that is not JSON are caught and change nothing.
\<close>

definition boot_probe :: "world \<Rightarrow> world" where
  "boot_probe w =
     (let (bootRes, w1) = fetch (Request ''GET'' MetaBoot None None) w
      in case bootRes of
           NetFail \<Rightarrow> w1
         | Reply ok data \<Rightarrow>
             if ok then
               (if data = NotJson then w1
                else
                  let boot_id = boot_id_of data;
                      prevBoot = getItem w1 ''boot_id'';
                      w2 = (if truthy prevBoot \<and> prevBoot \<noteq> boot_id
                            then removeItem ''token'' w1 else w1)
                  in setItem ''boot_id'' (stored_form boot_id) w2)
             else w1)"

text \<open>The text of \<open>me.username\<close> when \<open>me && me.username\<close> is truthy.\<close>

fun username_of :: "body option \<Rightarrow> string option" where
  "username_of (Some (UserBody u)) = (if u = [] then None else Some u)"
| "username_of _ = None"

text \<open>
  Steps 2 and 3 of \<open>checkAuth\<close>, from the world that step 1 leaves. The un-awaited call
  \<open>loadUserFiles()\<close> is sequenced at the place of the call and how it ends is dropped; an
  exception of \<open>getCurrentUser()\<close> is caught by the inner \<open>try\<close>.
\<close>

definition guard :: "world \<Rightarrow> world" where
  "guard w =
     (let token = getItem w ''token'';
          path = current_path w
      in if \<not> truthy token then
           (if onUploadPage path \<or> onProfilePage path \<or> onAlgorithmPage path
            then emit (Navigate ''/auth'') w
            else show_forms w)
         else
           let (res, w1) = fetch (Request ''GET'' MediaFiles (Some (bearer token)) None) w
           in case res of
                Reply ok data \<Rightarrow>
                  if ok then
                    (if onAuthPage path then emit (Navigate ''/upload'') w1
                     else if onUploadPage path \<or> onProfilePage path \<or> onAlgorithmPage path then
                       (let (_, w2) = loadUserFiles w1;
                            (me, w3) = getCurrentUser w2
                        in case me of
                             Threw e \<Rightarrow> w3
                           | Returned user \<Rightarrow>
                               (case username_of user of
                                  None \<Rightarrow> w3
                                | Some name \<Rightarrow>
                                    if has_element w3 ''profile-username''
                                    then emit (SetTextContent ''profile-username'' name) w3
                                    else w3))
                     else w1)
                  else
                    (let w2 = removeItem ''token'' w1
                     in if onUploadPage path \<or> onProfilePage path \<or> onAlgorithmPage path
                        then emit (Navigate ''/auth'') w2
                        else show_forms w2)
              | NetFail \<Rightarrow>
                  (let w2 = removeItem ''token'' w1
                   in if onUploadPage path
                      then emit (Navigate ''/auth'') w2
                      else show_forms w2))"

text \<open>\<open>checkAuth()\<close>. Every exception is caught inside, so the call always returns.\<close>

definition checkAuth :: "world \<Rightarrow> world" where
  "checkAuth w = guard (boot_probe w)"

text \<open>What the claims speak of, read off the trace.\<close>

definition navigations :: "world \<Rightarrow> string list" where
  "navigations w = [u. Navigate u \<leftarrow> trace w]"

definition fetches :: "world \<Rightarrow> request list" where
  "fetches w = [rq. Fetch rq \<leftarrow> trace w]"

definition calls :: "string \<Rightarrow> world \<Rightarrow> nat" where
  "calls f w = length [g \<leftarrow> [g. Called g \<leftarrow> trace w]. g = f]"

definition inner_html_of :: "string \<Rightarrow> world \<Rightarrow> html list" where
  "inner_html_of i w = [h. SetInnerHTML j h \<leftarrow> trace w, j = i]"

section \<open>Stale tokens and example pages\<close>

text \<open>
  The two observations the specification calls a token known to be stale, stated from its
  words. First: the stored boot id differs from the one that \<open>GET /meta/boot\<close> returns.
\<close>

definition boot_id_differs :: "world \<Rightarrow> bool" where
  "boot_id_differs w =
     (case replies w 0 of
        Reply ok data \<Rightarrow>
          (case data of
             BootBody b \<Rightarrow>
               (case getItem w ''boot_id'' of
                  Some p \<Rightarrow> ok \<and> p \<noteq> b
                | None \<Rightarrow> False)
           | _ \<Rightarrow> False)
      | NetFail \<Rightarrow> False)"

text \<open>Second: the guard validates a token (one is stored after step 1) and the file-list
  endpoint, which answers the second request, gives a response that is not \<open>ok\<close>.\<close>

definition validation_rejected :: "world \<Rightarrow> bool" where
  "validation_rejected w =
     (truthy (getItem (boot_probe w) ''token'') \<and>
      (case replies w 1 of Reply ok data \<Rightarrow> \<not> ok | NetFail \<Rightarrow> False))"

text \<open>A page as it is when it loads: its path, what \<open>localStorage\<close> holds, its elements,
  and the replies the server gives in order (the network fails once they are used up).\<close>

definition page :: "string \<Rightarrow> (string \<times> string) list \<Rightarrow> string list \<Rightarrow> reply list \<Rightarrow> world" where
  "page path stored els rs =
     \<lparr>localStorage = map_of stored, pathname = path, elements = els, selected_files = [],
      replies = (\<lambda>n. if n < length rs then rs ! n else NetFail), trace = []\<rparr>"

section \<open>Properties of the chart renderer\<close>

lemma map_field_objects:
  assumes "\<forall>p\<in>set ps. f p = Returned (g p)"
  shows "map_field f (map Some ps) = Returned (map g ps)"
  using assms by (induction ps) auto

lemma coerce_converts:
  "converts str2num v \<Longrightarrow> coerce str2num v = Returned (number_or_zero str2num v)"
  by (cases "Number str2num v")
    (auto simp: converts_def coerce_def number_or_zero_def split: jsnum.splits)

lemma line_loop_Suc:
  "line_loop x y (Suc i) ts vs = map (\<lambda>(qx, qy). LineTo qx qy) (zip (map x ts) (map y vs))"
proof (induction ts arbitrary: vs i)
  case Nil
  then show ?case by simp
next
  case (Cons t ts)
  then show ?case by (cases vs) (simp_all add: Let_def)
qed

lemma line_loop_polyline:
  "line_loop x y 0 ts vs = polyline (zip (map x ts) (map y vs))"
proof (cases ts)
  case Nil
  then show ?thesis by simp
next
  case (Cons t ts')
  then show ?thesis by (cases vs) (simp_all add: Let_def line_loop_Suc)
qed

lemma zip_map_same:
  "zip (map f ps) (map g ps) = map (\<lambda>p. (f p, g p)) ps"
  by (induction ps) auto

lemma renderChart_objects:
  assumes ne: "ps \<noteq> []"
    and len: "length ps \<le> arg_limit extra"
    and conv: "\<forall>p\<in>set ps. converts str2num (pt_t p) \<and> converts str2num (pt_value p)"
  shows "renderChart str2num extra (Some (cw, ch)) (Some (map Some ps)) =
     (([ClearRect 0 0 (real cw) (real ch)]
        @ axes_ops (real cw) (real ch)
            (lowest (map (\<lambda>p. number_or_zero str2num (pt_t p)) ps))
            (highest (map (\<lambda>p. number_or_zero str2num (pt_t p)) ps))
        @ [StrokeStyle ''#2a7'', LineWidth 2]) @ [BeginPath]
        @ polyline (map (\<lambda>p.
            (scale_x (lowest (map (\<lambda>p. number_or_zero str2num (pt_t p)) ps))
                     (highest (map (\<lambda>p. number_or_zero str2num (pt_t p)) ps))
                     (real cw - padL - padR) (number_or_zero str2num (pt_t p)),
             scale_y (real ch - padT - padB) (number_or_zero str2num (pt_value p)))) ps)
        @ [Stroke],
      Returned ())"
proof -
  have tms: "map_field (\<lambda>p. coerce str2num (pt_t p)) (map Some ps)
      = Returned (map (\<lambda>p. number_or_zero str2num (pt_t p)) ps)"
    by (rule map_field_objects) (use conv in \<open>simp add: coerce_converts\<close>)
  have vals: "map_field (\<lambda>p. coerce str2num (pt_value p)) (map Some ps)
      = Returned (map (\<lambda>p. number_or_zero str2num (pt_value p)) ps)"
    by (rule map_field_objects) (use conv in \<open>simp add: coerce_converts\<close>)
  show ?thesis
    using ne len
    by (simp add: renderChart_def tms vals math_min_def math_max_def Let_def
        line_loop_polyline zip_map_same o_def)
qed

lemma renderChart_no_canvas: "renderChart str2num extra None series = ([], Returned ())"
  by (simp add: renderChart_def)

lemma lowest_replicate_Suc: "lowest (replicate (Suc n) (Fin k)) = Fin k"
  by (induction n) (simp_all add: lowest_def del: foldr_replicate)

lemma highest_replicate_Suc: "highest (replicate (Suc n) (Fin k)) = Fin k"
  by (induction n) (simp_all add: highest_def del: foldr_replicate)

lemma lowest_replicate: "0 < n \<Longrightarrow> lowest (replicate n (Fin k)) = Fin k"
  using lowest_replicate_Suc [of "n - 1" k] by simp

lemma highest_replicate: "0 < n \<Longrightarrow> highest (replicate n (Fin k)) = Fin k"
  using highest_replicate_Suc [of "n - 1" k] by simp

lemma x_denominator_not_zero: "x_denominator tMin tMax \<noteq> Fin 0"
  by (cases "js_sub tMax tMin") (simp_all add: x_denominator_def max_def)

lemma scale_x_constant: "scale_x (Fin k) (Fin k) plotW (Fin k) = Fin padL"
  by (simp add: scale_x_def x_denominator_def js_sub_def)

lemma or_zero_zeroed:
  "coerce str2num (zero_if_not_number str2num v) = coerce str2num v"
  by (simp add: zero_if_not_number_def coerce_def)

lemma map_field_map_option:
  "map_field f (map (map_option g) es) = map_field (\<lambda>p. f (g p)) es"
proof (induction es)
  case Nil
  then show ?case by simp
next
  case (Cons a es)
  then show ?case by (cases a) (auto split: outcome.splits)
qed

lemma map_field_zeroed:
  "map_field (\<lambda>p. coerce str2num (pt_t p)) (map (map_option (zeroed_point str2num)) es)
     = map_field (\<lambda>p. coerce str2num (pt_t p)) es"
  "map_field (\<lambda>p. coerce str2num (pt_value p)) (map (map_option (zeroed_point str2num)) es)
     = map_field (\<lambda>p. coerce str2num (pt_value p)) es"
  by (simp_all add: map_field_map_option zeroed_point_def or_zero_zeroed)

text \<open>
  C5. For the series \<open>[{t:0,value:0},{t:10,value:1}]\<close> on a canvas of width \<open>cw\<close> and height
  \<open>ch\<close>, the path that \<open>renderChart\<close> draws last is the polyline: it moves to
  \<open>(padL, ch - padB)\<close>, the left margin on the bottom axis, and draws a line to
  \<open>(cw - padR, padT)\<close>, the right margin at the top of the plot area, with
  \<open>padL = 40\<close>, \<open>padR = 10\<close>, \<open>padT = 10\<close>, \<open>padB = 30\<close>.
\<close>

theorem renderChart_two_points:
  "\<exists>pre. renderChart str2num extra (Some (cw, ch))
     (Some [Some \<lparr>pt_t = JNumber (Fin 0), pt_value = JNumber (Fin 0)\<rparr>,
            Some \<lparr>pt_t = JNumber (Fin 10), pt_value = JNumber (Fin 1)\<rparr>]) =
   (pre @ [BeginPath, MoveTo (Fin padL) (Fin (real ch - padB)),
           LineTo (Fin (real cw - padR)) (Fin padT), Stroke],
    Returned ())
   \<and> padL = 40 \<and> padR = 10 \<and> padT = 10 \<and> padB = 30"
proof -
  have x0: "scale_x (Fin 0) (Fin 10) (real cw - padL - padR) (Fin 0) = Fin padL"
    by (simp add: scale_x_def x_denominator_def js_sub_def)
  have x1: "scale_x (Fin 0) (Fin 10) (real cw - padL - padR) (Fin 10) = Fin (real cw - padR)"
    by (simp add: scale_x_def x_denominator_def js_sub_def)
  have y0: "scale_y (real ch - padT - padB) (Fin 0) = Fin (real ch - padB)"
    by (simp add: scale_y_def js_sub_def)
  have y1: "scale_y (real ch - padT - padB) (Fin 1) = Fin padT"
    by (simp add: scale_y_def js_sub_def)
  have pads: "padL = 40 \<and> padR = 10 \<and> padT = 10 \<and> padB = 30"
    by (simp add: padL_def padR_def padT_def padB_def)
  have "\<exists>pre. renderChart str2num extra (Some (cw, ch))
     (Some [Some \<lparr>pt_t = JNumber (Fin 0), pt_value = JNumber (Fin 0)\<rparr>,
            Some \<lparr>pt_t = JNumber (Fin 10), pt_value = JNumber (Fin 1)\<rparr>]) =
   (pre @ [BeginPath, MoveTo (Fin padL) (Fin (real ch - padB)),
           LineTo (Fin (real cw - padR)) (Fin padT), Stroke],
    Returned ())"
    by (rule exI [of _ "[ClearRect 0 0 (real cw) (real ch)]
          @ axes_ops (real cw) (real ch) (Fin 0) (Fin 10)
          @ [StrokeStyle ''#2a7'', LineWidth 2]"])
      (simp add: renderChart_def Let_def coerce_def math_min_def math_max_def arg_limit_def
        lowest_def highest_def x0 x1 y0 y1)
  with pads show ?thesis by blast
qed

text \<open>
  C6, as stated, fails in three ways. When every point has the timestamp \<open>Infinity\<close> (the
  JSON number \<open>1e400\<close>), \<open>tMax - tMin\<close> and \<open>t - tMin\<close> are \<open>NaN\<close> and so is the horizontal
  position of every point. On an engine that takes 65536 arguments, a series of 150000
  points with one timestamp makes \<open>Math.min(...times)\<close> throw a \<open>RangeError\<close>. And a point whose
  \<open>value\<close> cannot be converted to a primitive makes \<open>Number\<close> throw a \<open>TypeError\<close>.
\<close>

theorem renderChart_constant_time_counterexample:
  "fst (renderChart (\<lambda>s. NaN) 0 (Some (300, 150))
        (Some [Some \<lparr>pt_t = JNumber PInf, pt_value = JNumber (Fin 0)\<rparr>,
               Some \<lparr>pt_t = JNumber PInf, pt_value = JNumber (Fin 1)\<rparr>]))
     = [ClearRect 0 0 300 150] @ axes_ops 300 150 PInf PInf
       @ [StrokeStyle ''#2a7'', LineWidth 2, BeginPath,
          MoveTo NaN (Fin 120), LineTo NaN (Fin 10), Stroke]
   \<and> snd (renderChart (\<lambda>s. NaN) 65534 (Some (300, 150))
        (Some (map Some (replicate 150000 \<lparr>pt_t = JNumber (Fin 5), pt_value = JNumber (Fin 0)\<rparr>))))
     = Threw RangeError
   \<and> snd (renderChart (\<lambda>s. NaN) 0 (Some (300, 150))
        (Some [Some \<lparr>pt_t = JNumber (Fin 5), pt_value = JObject None\<rparr>]))
     = Threw TypeError"
proof -
  have a: "fst (renderChart (\<lambda>s. NaN) 0 (Some (300, 150))
        (Some [Some \<lparr>pt_t = JNumber PInf, pt_value = JNumber (Fin 0)\<rparr>,
               Some \<lparr>pt_t = JNumber PInf, pt_value = JNumber (Fin 1)\<rparr>]))
     = [ClearRect 0 0 300 150] @ axes_ops 300 150 PInf PInf
       @ [StrokeStyle ''#2a7'', LineWidth 2, BeginPath,
          MoveTo NaN (Fin 120), LineTo NaN (Fin 10), Stroke]"
    by (simp add: renderChart_def Let_def coerce_def math_min_def math_max_def arg_limit_def
        lowest_def highest_def scale_x_def scale_y_def x_denominator_def js_sub_def
        padT_def padB_def)
  have "map_field (\<lambda>p. coerce (\<lambda>s. NaN) (pt_t p))
          (map Some (replicate 150000 \<lparr>pt_t = JNumber (Fin 5), pt_value = JNumber (Fin 0)\<rparr>))
        = Returned (map (\<lambda>p. Fin 5)
            (replicate 150000 \<lparr>pt_t = JNumber (Fin 5), pt_value = JNumber (Fin 0)\<rparr>))"
    by (rule map_field_objects) (simp add: coerce_def)
  moreover have "map_field (\<lambda>p. coerce (\<lambda>s. NaN) (pt_value p))
          (map Some (replicate 150000 \<lparr>pt_t = JNumber (Fin 5), pt_value = JNumber (Fin 0)\<rparr>))
        = Returned (map (\<lambda>p. Fin 0)
            (replicate 150000 \<lparr>pt_t = JNumber (Fin 5), pt_value = JNumber (Fin 0)\<rparr>))"
    by (rule map_field_objects) (simp add: coerce_def)
  ultimately have b: "snd (renderChart (\<lambda>s. NaN) 65534 (Some (300, 150))
        (Some (map Some (replicate 150000 \<lparr>pt_t = JNumber (Fin 5), pt_value = JNumber (Fin 0)\<rparr>))))
     = Threw RangeError"
    by (simp add: renderChart_def math_min_def arg_limit_def)
  have c: "snd (renderChart (\<lambda>s. NaN) 0 (Some (300, 150))
        (Some [Some \<lparr>pt_t = JNumber (Fin 5), pt_value = JObject None\<rparr>]))
     = Threw TypeError"
    by (simp add: renderChart_def coerce_def)
  from a b c show ?thesis by blast
qed

text \<open>
  C6, amended. For a series of objects that is not empty and has no more points than the
  engine takes arguments, in which the timestamps of all points stand for the same finite
  number \<open>k\<close> and every field converts to a number without throwing, \<open>renderChart\<close> returns
  without throwing; the denominator of the horizontal scale is never zero, whatever the
  bounds; and, when the canvas exists, the polyline has one point for each point of the
  series, each at the horizontal position \<open>padL\<close>.
\<close>

theorem renderChart_constant_time:
  assumes ne: "ps \<noteq> []"
    and len: "length ps \<le> arg_limit extra"
    and same: "\<forall>p\<in>set ps. converts str2num (pt_t p) \<and> number_or_zero str2num (pt_t p) = Fin k
                  \<and> converts str2num (pt_value p)"
  shows "snd (renderChart str2num extra canvas (Some (map Some ps))) = Returned ()
    \<and> x_denominator tMin tMax \<noteq> Fin 0
    \<and> (canvas \<noteq> None \<longrightarrow>
        (\<exists>pre pts. fst (renderChart str2num extra canvas (Some (map Some ps)))
             = pre @ [BeginPath] @ pts @ [Stroke]
           \<and> length pts = length ps
           \<and> (\<forall>op\<in>set pts. \<exists>py. op = MoveTo (Fin padL) py \<or> op = LineTo (Fin padL) py)))"
proof -
  have conv: "\<forall>p\<in>set ps. converts str2num (pt_t p) \<and> converts str2num (pt_value p)"
    using same by simp
  have "map (\<lambda>p. number_or_zero str2num (pt_t p)) ps = map (\<lambda>p. Fin k) ps"
    using same by simp
  then have tms: "map (\<lambda>p. number_or_zero str2num (pt_t p)) ps = replicate (length ps) (Fin k)"
    by (simp add: map_replicate_const)
  have npos: "0 < length ps" using ne by simp
  have mn: "lowest (map (\<lambda>p. number_or_zero str2num (pt_t p)) ps) = Fin k"
    and mx: "highest (map (\<lambda>p. number_or_zero str2num (pt_t p)) ps) = Fin k"
    unfolding tms using npos by (simp_all add: lowest_replicate highest_replicate)
  have ret: "snd (renderChart str2num extra canvas (Some (map Some ps))) = Returned ()"
  proof (cases canvas)
    case None
    then show ?thesis by (simp add: renderChart_no_canvas)
  next
    case (Some cv)
    then show ?thesis by (cases cv) (simp add: renderChart_objects [OF ne len conv])
  qed
  have path: "\<exists>pre pts. fst (renderChart str2num extra canvas (Some (map Some ps)))
             = pre @ [BeginPath] @ pts @ [Stroke]
           \<and> length pts = length ps
           \<and> (\<forall>op\<in>set pts. \<exists>py. op = MoveTo (Fin padL) py \<or> op = LineTo (Fin padL) py)"
    if "canvas \<noteq> None"
  proof -
    obtain cw ch where cv: "canvas = Some (cw, ch)"
      using \<open>canvas \<noteq> None\<close> by (cases canvas) auto
    define pts where "pts = polyline (map (\<lambda>p.
            (scale_x (Fin k) (Fin k) (real cw - padL - padR) (number_or_zero str2num (pt_t p)),
             scale_y (real ch - padT - padB) (number_or_zero str2num (pt_value p)))) ps)"
    have samek: "\<forall>p\<in>set ps. number_or_zero str2num (pt_t p) = Fin k" using same by simp
    have pts_eq: "pts = polyline (map (\<lambda>p.
            (Fin padL, scale_y (real ch - padT - padB) (number_or_zero str2num (pt_value p)))) ps)"
      unfolding pts_def using samek by (simp add: scale_x_constant cong: map_cong)
    have len_pl: "length (polyline qs) = length qs" for qs
      by (cases qs) auto
    have set_pl: "\<exists>py. op = MoveTo px py \<or> op = LineTo px py"
      if "op \<in> set (polyline qs)" and "\<forall>q\<in>set qs. fst q = px" for op qs px
      using that by (cases qs) force+
    have len': "length pts = length ps" by (simp add: pts_eq len_pl)
    have xs: "\<exists>py. op = MoveTo (Fin padL) py \<or> op = LineTo (Fin padL) py" if "op \<in> set pts" for op
      using that unfolding pts_eq by (rule set_pl) auto
    have "fst (renderChart str2num extra canvas (Some (map Some ps))) =
       ([ClearRect 0 0 (real cw) (real ch)] @ axes_ops (real cw) (real ch) (Fin k) (Fin k)
        @ [StrokeStyle ''#2a7'', LineWidth 2]) @ [BeginPath] @ pts @ [Stroke]"
      unfolding cv renderChart_objects [OF ne len conv] mn mx pts_def by simp
    with len' xs show ?thesis by blast
  qed
  from ret x_denominator_not_zero path show ?thesis by blast
qed

theorem renderChart_constant_time_witness:
  "renderChart (\<lambda>s. if s = ''5'' then Fin 5 else NaN) 0 (Some (300, 150))
        (Some [Some \<lparr>pt_t = JNumber (Fin 5), pt_value = JNumber (Fin (1/2))\<rparr>,
               Some \<lparr>pt_t = JString ''5'', pt_value = JNumber (Fin 1)\<rparr>])
     = ([ClearRect 0 0 300 150] @ axes_ops 300 150 (Fin 5) (Fin 5)
        @ [StrokeStyle ''#2a7'', LineWidth 2, BeginPath,
           MoveTo (Fin padL) (Fin 65), LineTo (Fin padL) (Fin 10), Stroke],
        Returned ())
   \<and> x_denominator (Fin 5) (Fin 5) \<noteq> Fin 0"
proof -
  have "renderChart (\<lambda>s. if s = ''5'' then Fin 5 else NaN) 0 (Some (300, 150))
        (Some [Some \<lparr>pt_t = JNumber (Fin 5), pt_value = JNumber (Fin (1/2))\<rparr>,
               Some \<lparr>pt_t = JString ''5'', pt_value = JNumber (Fin 1)\<rparr>])
     = ([ClearRect 0 0 300 150] @ axes_ops 300 150 (Fin 5) (Fin 5)
        @ [StrokeStyle ''#2a7'', LineWidth 2, BeginPath,
           MoveTo (Fin padL) (Fin 65), LineTo (Fin padL) (Fin 10), Stroke],
        Returned ())"
    by (simp add: renderChart_def Let_def coerce_def math_min_def math_max_def arg_limit_def
        lowest_def highest_def scale_x_def scale_y_def x_denominator_def js_sub_def
        padT_def padB_def)
  then show ?thesis
    using renderChart_constant_time [of
      "[\<lparr>pt_t = JNumber (Fin 5), pt_value = JNumber (Fin (1/2))\<rparr>,
        \<lparr>pt_t = JString ''5'', pt_value = JNumber (Fin 1)\<rparr>]"
      0 "\<lambda>s. if s = ''5'' then Fin 5 else NaN" 5 "Some (300, 150)" "Fin 5" "Fin 5"]
    by (simp add: arg_limit_def converts_def number_or_zero_def)
qed

text \<open>
  C7, as stated, fails: on a canvas of 300 by 150 the call \<open>renderChart([])\<close> issues
  \<open>clearRect(0, 0, 300, 150)\<close> on the context, because the canvas is cleared before the series
  is tested for emptiness.
\<close>

theorem renderChart_empty_clears_counterexample:
  "fst (renderChart (\<lambda>s. NaN) 0 (Some (300, 150)) (Some [])) = [ClearRect 0 0 300 150]
   \<and> fst (renderChart (\<lambda>s. NaN) 0 (Some (300, 150)) (Some [])) \<noteq> []"
  by (simp add: renderChart_def)

text \<open>
  C7, amended. For a series that is \<open>null\<close>, \<open>undefined\<close> or empty, \<open>renderChart\<close> returns
  after a single operation on the context, \<open>clearRect(0, 0, w, h)\<close> over the whole canvas;
  it issues no operation at all when the page has no canvas.
\<close>

theorem renderChart_empty_only_clears:
  "renderChart str2num extra canvas None =
     (case canvas of None \<Rightarrow> [] | Some (cw, ch) \<Rightarrow> [ClearRect 0 0 (real cw) (real ch)], Returned ())
   \<and> renderChart str2num extra canvas (Some []) =
     (case canvas of None \<Rightarrow> [] | Some (cw, ch) \<Rightarrow> [ClearRect 0 0 (real cw) (real ch)], Returned ())"
  by (simp add: renderChart_def split: option.splits)

text \<open>
  C10, as stated, fails: a field that is not a number can make \<open>renderChart\<close> throw. For
  a point whose \<open>t\<close> is an object that cannot be converted to a primitive (the parsed JSON
  \<open>{"toString": 1}\<close>), \<open>Number(p.t)\<close> throws a \<open>TypeError\<close> after the canvas is cleared; and
  a series of 150000 points without numeric fields, on an engine that takes 65536
  arguments, ends in the \<open>RangeError\<close> of \<open>Math.min(...times)\<close>.
\<close>

theorem renderChart_throwing_field_counterexample:
  "renderChart (\<lambda>s. NaN) 0 (Some (300, 150))
        (Some [Some \<lparr>pt_t = JObject None, pt_value = JNumber (Fin 0)\<rparr>])
     = ([ClearRect 0 0 300 150], Threw TypeError)
   \<and> snd (renderChart (\<lambda>s. NaN) 65534 (Some (300, 150))
        (Some (map Some (replicate 150000 \<lparr>pt_t = JUndefined, pt_value = JString ''abc''\<rparr>))))
     = Threw RangeError"
proof -
  have a: "renderChart (\<lambda>s. NaN) 0 (Some (300, 150))
        (Some [Some \<lparr>pt_t = JObject None, pt_value = JNumber (Fin 0)\<rparr>])
     = ([ClearRect 0 0 300 150], Threw TypeError)"
    by (simp add: renderChart_def coerce_def)
  have "map_field (\<lambda>p. coerce (\<lambda>s. NaN) (pt_t p))
          (map Some (replicate 150000 \<lparr>pt_t = JUndefined, pt_value = JString ''abc''\<rparr>))
        = Returned (map (\<lambda>p. Fin 0)
            (replicate 150000 \<lparr>pt_t = JUndefined, pt_value = JString ''abc''\<rparr>))"
    by (rule map_field_objects) (simp add: coerce_def)
  moreover have "map_field (\<lambda>p. coerce (\<lambda>s. NaN) (pt_value p))
          (map Some (replicate 150000 \<lparr>pt_t = JUndefined, pt_value = JString ''abc''\<rparr>))
        = Returned (map (\<lambda>p. Fin 0)
            (replicate 150000 \<lparr>pt_t = JUndefined, pt_value = JString ''abc''\<rparr>))"
    by (rule map_field_objects) (simp add: coerce_def)
  ultimately have b: "snd (renderChart (\<lambda>s. NaN) 65534 (Some (300, 150))
        (Some (map Some (replicate 150000 \<lparr>pt_t = JUndefined, pt_value = JString ''abc''\<rparr>))))
     = Threw RangeError"
    by (simp add: renderChart_def math_min_def arg_limit_def)
  from a b show ?thesis by blast
qed

text \<open>
  C10, amended. For a series of objects that is not empty and has no more points than the
  engine takes arguments, and whose fields all convert without throwing, \<open>renderChart\<close>
  returns without throwing and draws, after the axes and labels, the polyline through the
  positions \<open>(x(t'), y(v'))\<close> of its points in order, where \<open>t'\<close> and \<open>v'\<close> are the numbers
  the fields stand for: the number \<open>Number\<close> gives, and 0 when that is \<open>NaN\<close> (as for
  \<open>undefined\<close>, \<open>NaN\<close> and a string that is not numeric). And every series is drawn exactly
  as the series in which each such field is replaced by the number 0.
\<close>

theorem renderChart_non_numeric_as_zero:
  assumes ne: "ps \<noteq> []"
    and len: "length ps \<le> arg_limit extra"
    and conv: "\<forall>p\<in>set ps. converts str2num (pt_t p) \<and> converts str2num (pt_value p)"
  shows "renderChart str2num extra (Some (cw, ch)) (Some (map Some ps)) =
     (([ClearRect 0 0 (real cw) (real ch)]
        @ axes_ops (real cw) (real ch)
            (lowest (map (\<lambda>p. number_or_zero str2num (pt_t p)) ps))
            (highest (map (\<lambda>p. number_or_zero str2num (pt_t p)) ps))
        @ [StrokeStyle ''#2a7'', LineWidth 2]) @ [BeginPath]
        @ polyline (map (\<lambda>p.
            (scale_x (lowest (map (\<lambda>p. number_or_zero str2num (pt_t p)) ps))
                     (highest (map (\<lambda>p. number_or_zero str2num (pt_t p)) ps))
                     (real cw - padL - padR) (number_or_zero str2num (pt_t p)),
             scale_y (real ch - padT - padB) (number_or_zero str2num (pt_value p)))) ps)
        @ [Stroke],
      Returned ())
    \<and> renderChart str2num extra canvas (Some (map (map_option (zeroed_point str2num)) series))
        = renderChart str2num extra canvas (Some series)"
proof
  show "renderChart str2num extra (Some (cw, ch)) (Some (map Some ps)) =
     (([ClearRect 0 0 (real cw) (real ch)]
        @ axes_ops (real cw) (real ch)
            (lowest (map (\<lambda>p. number_or_zero str2num (pt_t p)) ps))
            (highest (map (\<lambda>p. number_or_zero str2num (pt_t p)) ps))
        @ [StrokeStyle ''#2a7'', LineWidth 2]) @ [BeginPath]
        @ polyline (map (\<lambda>p.
            (scale_x (lowest (map (\<lambda>p. number_or_zero str2num (pt_t p)) ps))
                     (highest (map (\<lambda>p. number_or_zero str2num (pt_t p)) ps))
                     (real cw - padL - padR) (number_or_zero str2num (pt_t p)),
             scale_y (real ch - padT - padB) (number_or_zero str2num (pt_value p)))) ps)
        @ [Stroke],
      Returned ())"
    by (rule renderChart_objects [OF ne len conv])
  show "renderChart str2num extra canvas (Some (map (map_option (zeroed_point str2num)) series))
        = renderChart str2num extra canvas (Some series)"
    unfolding renderChart_def option.case map_field_zeroed length_map by (rule refl)
qed

theorem renderChart_non_numeric_as_zero_witness:
  "renderChart (\<lambda>s. NaN) 0 (Some (300, 150))
       (Some [Some \<lparr>pt_t = JUndefined, pt_value = JString ''abc''\<rparr>,
              Some \<lparr>pt_t = JNumber (Fin 10), pt_value = JNumber (Fin 1)\<rparr>])
     = ([ClearRect 0 0 300 150] @ axes_ops 300 150 (Fin 0) (Fin 10)
        @ [StrokeStyle ''#2a7'', LineWidth 2, BeginPath,
           MoveTo (Fin 40) (Fin 120), LineTo (Fin 290) (Fin 10), Stroke],
        Returned ())"
  using renderChart_non_numeric_as_zero [of
      "[\<lparr>pt_t = JUndefined, pt_value = JString ''abc''\<rparr>,
        \<lparr>pt_t = JNumber (Fin 10), pt_value = JNumber (Fin 1)\<rparr>]"
      0 "\<lambda>s. NaN" 300 150]
  by (simp add: arg_limit_def converts_def number_or_zero_def lowest_def highest_def
      scale_x_def scale_y_def x_denominator_def js_sub_def padL_def padR_def padT_def padB_def)

section \<open>Properties of the session guard\<close>

lemma navigations_emit:
  "navigations (emit e w) = navigations w @ (case e of Navigate u \<Rightarrow> [u] | _ \<Rightarrow> [])"
  by (cases e) (simp_all add: navigations_def emit_def)

lemma fetch_simps:
  "fst (fetch rq w) = replies w 0"
  "trace (snd (fetch rq w)) = trace w @ [Fetch rq]"
  "localStorage (snd (fetch rq w)) = localStorage w"
  "pathname (snd (fetch rq w)) = pathname w"
  "elements (snd (fetch rq w)) = elements w"
  "replies (snd (fetch rq w)) = (\<lambda>n. replies w (Suc n))"
  by (simp_all add: fetch_def)

lemma navigations_fetch: "navigations (snd (fetch rq w)) = navigations w"
  by (simp add: navigations_def fetch_simps)

lemma navigations_storage:
  "navigations (setItem k v w) = navigations w"
  "navigations (removeItem k w) = navigations w"
  by (simp_all add: navigations_def setItem_def removeItem_def)

lemma navigations_show_forms: "navigations (show_forms w) = navigations w"
  by (simp add: show_forms_def navigations_emit)

lemma navigations_loadUserFiles: "navigations (snd (loadUserFiles w)) = navigations w"
  by (simp add: loadUserFiles_def Let_def split_beta navigations_emit navigations_fetch fetch_simps
      split: reply.splits body.splits)

lemma navigations_getCurrentUser: "navigations (snd (getCurrentUser w)) = navigations w"
  by (simp add: getCurrentUser_def Let_def split_beta navigations_fetch
      split: reply.splits)

lemma navigations_boot_probe: "navigations (boot_probe w) = navigations w"
  by (simp add: boot_probe_def Let_def split_beta navigations_fetch navigations_storage
      split: reply.splits)

lemma pathname_boot_probe: "pathname (boot_probe w) = pathname w"
  by (simp add: boot_probe_def Let_def split_beta fetch_simps setItem_def removeItem_def
      split: reply.splits)

lemma current_path_boot_probe: "current_path (boot_probe w) = current_path w"
  by (simp add: current_path_def pathname_boot_probe)

lemma guard_no_navigation:
  assumes "\<not> onAuthPage (current_path w)" and "\<not> onPrivatePage (current_path w)"
  shows "navigations (guard w) = navigations w"
  using assms
  by (simp add: guard_def onPrivatePage_def Let_def split_beta navigations_show_forms
      navigations_fetch navigations_storage split: reply.splits)

lemma storage_emit: "localStorage (emit e w) = localStorage w"
  by (simp add: emit_def)

lemma storage_show_forms: "localStorage (show_forms w) = localStorage w"
  by (simp add: show_forms_def storage_emit)

lemma storage_loadUserFiles: "localStorage (snd (loadUserFiles w)) = localStorage w"
  by (simp add: loadUserFiles_def Let_def split_beta storage_emit fetch_simps
      split: reply.splits body.splits)

lemma storage_getCurrentUser: "localStorage (snd (getCurrentUser w)) = localStorage w"
  by (simp add: getCurrentUser_def Let_def split_beta fetch_simps split: reply.splits)

lemma guard_keeps_no_token:
  "getItem w ''token'' = None \<Longrightarrow> getItem (guard w) ''token'' = None"
  by (simp add: guard_def getItem_def Let_def storage_emit storage_show_forms)

lemma trace_boot_probe:
  "trace (boot_probe w) = trace w @ [Fetch (Request ''GET'' MetaBoot None None)]"
  by (simp add: boot_probe_def Let_def split_beta fetch_simps setItem_def removeItem_def
      split: reply.splits)

lemma replies_boot_probe: "replies (boot_probe w) = (\<lambda>n. replies w (Suc n))"
  by (simp add: boot_probe_def Let_def split_beta fetch_simps setItem_def removeItem_def
      split: reply.splits)

lemma boot_probe_keeps_no_token:
  "getItem w ''token'' = None \<Longrightarrow> getItem (boot_probe w) ''token'' = None"
  by (simp add: boot_probe_def getItem_def Let_def split_beta fetch_simps setItem_def removeItem_def
      split: reply.splits)

lemma boot_probe_clears:
  assumes "boot_id_differs w" and "getItem w ''boot_id'' \<noteq> Some []"
  shows "getItem (boot_probe w) ''token'' = None"
  using assms
  by (auto simp: boot_id_differs_def boot_probe_def getItem_def Let_def split_beta fetch_simps
      setItem_def removeItem_def split: reply.splits body.splits option.splits)

lemma guard_rejected_clears:
  assumes "truthy (getItem w ''token'')" and "replies w 0 = Reply False data"
  shows "getItem (guard w) ''token'' = None"
  using assms
  by (simp add: guard_def getItem_def Let_def split_beta fetch_simps storage_emit
      storage_show_forms removeItem_def)

text \<open>
  C1, as stated, fails: a stored boot id that is the empty string differs from the boot id
  \<open>b2\<close> that the server returns, yet \<open>checkAuth\<close> keeps the token, because its test
  \<open>prevBoot && prevBoot !== boot_id\<close> takes an empty stored value for no stored value.
\<close>

theorem checkAuth_empty_boot_id_counterexample:
  "boot_id_differs (page ''/upload'' [(''token'', ''tok''), (''boot_id'', [])] []
       [Reply True (BootBody ''b2''), Reply True (FilesBody [])])
   \<and> getItem (checkAuth (page ''/upload'' [(''token'', ''tok''), (''boot_id'', [])] []
       [Reply True (BootBody ''b2''), Reply True (FilesBody [])])) ''token'' = Some ''tok''"
  by (simp add: boot_id_differs_def page_def getItem_def checkAuth_def boot_probe_def guard_def
      fetch_def setItem_def removeItem_def Let_def current_path_def endsWith_def startsWith_def
      onAuthPage_def onUploadPage_def loadUserFiles_def getCurrentUser_def emit_def has_element_def)

text \<open>
  C1, amended. When \<open>checkAuth\<close> observes a stored boot id that is not empty and differs
  from the boot id that \<open>GET /meta/boot\<close> returns, or when it validates a token and the
  file-list endpoint answers with a response that is not \<open>ok\<close>, no token is stored once
  \<open>checkAuth\<close> has completed. So a token that is still stored then was not seen to be stale
  in either way during the run.
\<close>

theorem checkAuth_clears_stale_token:
  assumes "(boot_id_differs w \<and> getItem w ''boot_id'' \<noteq> Some []) \<or> validation_rejected w"
  shows "getItem (checkAuth w) ''token'' = None"
  using assms
proof
  assume "boot_id_differs w \<and> getItem w ''boot_id'' \<noteq> Some []"
  then have "getItem (boot_probe w) ''token'' = None" by (simp add: boot_probe_clears)
  then show ?thesis by (simp add: checkAuth_def guard_keeps_no_token)
next
  assume rej: "validation_rejected w"
  then obtain data where "replies (boot_probe w) 0 = Reply False data"
    by (auto simp: validation_rejected_def replies_boot_probe split: reply.splits)
  with rej show ?thesis
    by (simp add: checkAuth_def validation_rejected_def guard_rejected_clears)
qed

theorem checkAuth_clears_stale_token_witness:
  "getItem (checkAuth (page ''/upload'' [(''token'', ''tok''), (''boot_id'', ''b1'')] []
       [Reply True (BootBody ''b2'')])) ''token'' = None
   \<and> getItem (checkAuth (page ''/'' [(''token'', ''tok''), (''boot_id'', ''b1'')] []
       [Reply True (BootBody ''b1''), Reply False (DetailBody ''Invalid token'')])) ''token'' = None"
  using checkAuth_clears_stale_token [of "page ''/upload'' [(''token'', ''tok''), (''boot_id'', ''b1'')] []
       [Reply True (BootBody ''b2'')]"]
    checkAuth_clears_stale_token [of "page ''/'' [(''token'', ''tok''), (''boot_id'', ''b1'')] []
       [Reply True (BootBody ''b1''), Reply False (DetailBody ''Invalid token'')]"]
  by (simp add: boot_id_differs_def validation_rejected_def page_def getItem_def boot_probe_def
      fetch_def setItem_def removeItem_def Let_def)

text \<open>
  C2 at an input where it fails. On \<open>/profile\<close>, with a token stored, the validation request
  fails in the network: \<open>checkAuth\<close> removes the token and does not navigate, since its
  \<open>catch\<close> block tests \<open>onUploadPage\<close> alone. The same page with a response that is not
  \<open>ok\<close>, and the page \<open>/upload\<close> with the same network failure, navigate to \<open>/auth\<close>.
\<close>

theorem checkAuth_network_error_on_profile:
  "navigations (checkAuth (page ''/profile'' [(''token'', ''tok''), (''boot_id'', ''b1'')]
       [''profile-username''] [Reply True (BootBody ''b1''), NetFail])) = []
   \<and> getItem (checkAuth (page ''/profile'' [(''token'', ''tok''), (''boot_id'', ''b1'')]
       [''profile-username''] [Reply True (BootBody ''b1''), NetFail])) ''token'' = None
   \<and> navigations (checkAuth (page ''/profile'' [(''token'', ''tok''), (''boot_id'', ''b1'')]
       [''profile-username''] [Reply True (BootBody ''b1''), Reply False PlainObject])) = [''/auth'']
   \<and> navigations (checkAuth (page ''/upload'' [(''token'', ''tok''), (''boot_id'', ''b1'')]
       [''profile-username''] [Reply True (BootBody ''b1''), NetFail])) = [''/auth'']"
  by (simp add: page_def getItem_def checkAuth_def boot_probe_def guard_def
      fetch_def setItem_def removeItem_def Let_def current_path_def endsWith_def startsWith_def
      onAuthPage_def onUploadPage_def onProfilePage_def onAlgorithmPage_def show_forms_def
      emit_def has_element_def navigations_def)

text \<open>
  C3. On a path that is neither the public page (\<open>/\<close>, \<open>/auth\<close>) nor a private page
  (\<open>/upload\<close>, \<open>/profile\<close>, \<open>/algorithm\<close>), \<open>checkAuth\<close> performs no navigation, whatever
  is stored and whatever the server replies: the navigations after the call are those
  before it.
\<close>

theorem checkAuth_other_pages_never_navigate:
  assumes "\<not> onAuthPage (current_path w)" and "\<not> onPrivatePage (current_path w)"
  shows "navigations (checkAuth w) = navigations w"
  using assms guard_no_navigation [of "boot_probe w"]
  by (simp add: checkAuth_def current_path_boot_probe navigations_boot_probe)

theorem checkAuth_other_pages_never_navigate_witness:
  "navigations (checkAuth (page ''/about'' [(''token'', ''tok''), (''boot_id'', ''b1'')] []
     [Reply True (BootBody ''b1''), Reply False PlainObject])) = []"
  using checkAuth_other_pages_never_navigate
    [of "page ''/about'' [(''token'', ''tok''), (''boot_id'', ''b1'')] []
     [Reply True (BootBody ''b1''), Reply False PlainObject]"]
  by (simp add: page_def navigations_def onAuthPage_def onPrivatePage_def onUploadPage_def
      onProfilePage_def onAlgorithmPage_def current_path_def endsWith_def startsWith_def)

text \<open>
  C4. When no token is stored and the page is private, \<open>checkAuth\<close> has exactly two
  effects: the request to \<open>/meta/boot\<close>, which carries no \<open>Authorization\<close> header, and then
  the navigation to \<open>/auth\<close>. No request to a protected endpoint is made.
\<close>

theorem checkAuth_no_token_private_redirects:
  assumes "getItem w ''token'' = None" and "onPrivatePage (current_path w)"
  shows "trace (checkAuth w) =
           trace w @ [Fetch (Request ''GET'' MetaBoot None None), Navigate ''/auth'']"
proof -
  have "getItem (boot_probe w) ''token'' = None"
    using assms(1) by (rule boot_probe_keeps_no_token)
  moreover have "onUploadPage (current_path (boot_probe w)) \<or> onProfilePage (current_path (boot_probe w))
      \<or> onAlgorithmPage (current_path (boot_probe w))"
    using assms(2) by (simp add: onPrivatePage_def current_path_boot_probe)
  ultimately have "guard (boot_probe w) = emit (Navigate ''/auth'') (boot_probe w)"
    by (simp add: guard_def Let_def)
  then show ?thesis
    by (simp add: checkAuth_def emit_def trace_boot_probe)
qed

theorem checkAuth_no_token_private_redirects_witness:
  "trace (checkAuth (page ''/profile'' [(''boot_id'', ''b1'')] [] [Reply True (BootBody ''b1'')])) =
     [Fetch (Request ''GET'' MetaBoot None None), Navigate ''/auth'']"
  using checkAuth_no_token_private_redirects
    [of "page ''/profile'' [(''boot_id'', ''b1'')] [] [Reply True (BootBody ''b1'')]"]
  by (simp add: page_def getItem_def onPrivatePage_def onProfilePage_def current_path_def
      endsWith_def)

section \<open>Properties of the file operations\<close>

lemma calls_emit:
  "calls f (emit e w) = calls f w + (case e of Called g \<Rightarrow> (if g = f then 1 else 0) | _ \<Rightarrow> 0)"
  by (cases e) (simp_all add: calls_def emit_def)

lemma calls_fetch: "calls f (snd (fetch rq w)) = calls f w"
  by (simp add: calls_def fetch_simps)

lemma calls_loadUserFiles:
  "calls ''loadUserFiles'' (snd (loadUserFiles w)) = calls ''loadUserFiles'' w + 1"
  by (simp add: loadUserFiles_def Let_def split_beta calls_emit calls_fetch
      split: reply.splits body.splits)

text \<open>
  C8. In the variant of \<open>deleteFile\<close> that does not look at the status, when the
  \<open>DELETE\<close> request is made (a token is stored) and gets a response, whether \<open>ok\<close> or not,
  the call returns and \<open>loadUserFiles\<close> has been called exactly once more.
\<close>

theorem deleteFile_refreshes_once:
  assumes "truthy (getItem w ''token'')" and "replies w 0 = Reply ok data"
  shows "fst (deleteFile ident w) = Returned ()
    \<and> calls ''loadUserFiles'' (snd (deleteFile ident w)) = calls ''loadUserFiles'' w + 1"
  using assms
  by (simp add: deleteFile_def Let_def split_beta fetch_simps calls_loadUserFiles calls_fetch)

theorem deleteFile_refreshes_once_witness:
  "calls ''loadUserFiles'' (snd (deleteFile 7 (page ''/upload'' [(''token'', ''tok'')] [''user-files'']
      [Reply False (DetailBody ''Not found''), Reply True (FilesBody [])]))) = 1
   \<and> calls ''loadUserFiles'' (snd (deleteFile 7 (page ''/upload'' [(''token'', ''tok'')] [''user-files'']
      [Reply True PlainObject, Reply True (FilesBody [])]))) = 1"
  using deleteFile_refreshes_once [of "page ''/upload'' [(''token'', ''tok'')] [''user-files'']
      [Reply False (DetailBody ''Not found''), Reply True (FilesBody [])]" False "DetailBody ''Not found''" 7]
    deleteFile_refreshes_once [of "page ''/upload'' [(''token'', ''tok'')] [''user-files'']
      [Reply True PlainObject, Reply True (FilesBody [])]" True PlainObject 7]
  by (simp add: page_def getItem_def calls_def)

text \<open>
  C9, as stated, fails: on a page without the element \<open>fileInput\<close> and with no token
  stored, \<open>upload()\<close> throws a \<open>TypeError\<close> in its first statement and shows no alert.
\<close>

theorem upload_without_file_input_counterexample:
  "getItem (page ''/upload'' [] [''results''] []) ''token'' = None
   \<and> upload (page ''/upload'' [] [''results''] []) =
       (Threw TypeError, page ''/upload'' [] [''results''] [])
   \<and> Alert token_hint \<notin> set (trace (snd (upload (page ''/upload'' [] [''results''] []))))"
  by (simp add: upload_def page_def getItem_def has_element_def)

text \<open>
  C9, amended. When no token is stored, \<open>upload()\<close> on a page that has the element
  \<open>fileInput\<close> shows the alert and returns with no other effect; on a page without that
  element it throws before the token is read. In both cases it issues no request and does
  not assign to \<open>innerHTML\<close> of the element \<open>results\<close>.
\<close>

theorem upload_no_token:
  assumes "getItem w ''token'' = None"
  shows "upload w = (if has_element w ''fileInput''
                     then (Returned (), emit (Alert token_hint) w)
                     else (Threw TypeError, w))
    \<and> fetches (snd (upload w)) = fetches w
    \<and> inner_html_of ''results'' (snd (upload w)) = inner_html_of ''results'' w"
  using assms by (simp add: upload_def Let_def fetches_def inner_html_of_def emit_def)

theorem upload_no_token_witness:
  "upload (page ''/upload'' [] [''fileInput'', ''results''] []) =
     (Returned (), emit (Alert token_hint) (page ''/upload'' [] [''fileInput'', ''results''] []))
   \<and> fetches (snd (upload (page ''/upload'' [] [''fileInput'', ''results''] []))) = []
   \<and> inner_html_of ''results'' (snd (upload (page ''/upload'' [] [''fileInput'', ''results''] []))) = []"
  using upload_no_token [of "page ''/upload'' [] [''fileInput'', ''results''] []"]
  by (simp add: page_def getItem_def has_element_def fetches_def inner_html_of_def)

end
